theory Spec2Isabelle
  imports Complex_Main "HOL-Library.Sublist"
begin

section \<open>Rate queries of \<^verbatim>\<open>internal/queries/rate.go\<close>\<close>

text \<open>
  The file builds two BigQuery statements as text and runs one of them.  Go strings
  are byte sequences, modelled as \<^typ>\<open>string\<close>; \<^verbatim>\<open>fmt.Sprintf\<close> with
  \<^verbatim>\<open>%s\<close> splices a string unchanged and with \<^verbatim>\<open>%d\<close> prints an integer in
  decimal, so every format call is a concatenation.
\<close>

subsection \<open>Data\<close>

text \<open>
  \<^verbatim>\<open>Asset\<close> is declared in another file of the package; \<^verbatim>\<open>rate.go\<close> reads its
  fields \<^verbatim>\<open>Code\<close> and \<^verbatim>\<open>Issuer\<close>, both spliced with \<^verbatim>\<open>%s\<close>.
\<close>

record Asset =
  Code :: string
  Issuer :: string

subsection \<open>Decimal printing (\<^verbatim>\<open>%d\<close>)\<close>

definition digit_char :: "nat \<Rightarrow> char" where
  "digit_char d = ''0123456789'' ! (d mod 10)"

function show_nat :: "nat \<Rightarrow> string" where
  "show_nat n = (if n < 10 then [digit_char n] else show_nat (n div 10) @ [digit_char (n mod 10)])"
  by pat_completeness auto
termination
  by (relation "measure id") auto

definition show_int :: "int \<Rightarrow> string" where
  "show_int i = (if i < 0 then CHR ''-'' # show_nat (nat (- i)) else show_nat (nat i))"

subsection \<open>The trade-rate query builder\<close>

text \<open>
  \<^verbatim>\<open>getTitleField\<close> and the constant \<^verbatim>\<open>queryLimit\<close> are declared outside
  \<^verbatim>\<open>rate.go\<close>; the builders take them as the parameters \<open>getTitleField\<close> and
  \<open>queryLimit\<close>.  The local variables of the Go functions keep their names.
\<close>

definition baseAssetMatch :: "Asset \<Rightarrow> Asset \<Rightarrow> string" where
  \<open>baseAssetMatch source dest =
     ''((B.asset_code="'' @ Code source @ ''" AND B.asset_issuer="'' @ Issuer source
       @ ''") OR (C.asset_code="'' @ Code dest @ ''" AND C.asset_issuer="'' @ Issuer dest @ ''"))''\<close>

definition baseAssetSelect :: string where
  "baseAssetSelect = ''SUM(T.counter_amount)/SUM(T.base_amount)''"

definition counterAssetMatch :: "Asset \<Rightarrow> Asset \<Rightarrow> string" where
  \<open>counterAssetMatch source dest =
     ''((C.asset_code="'' @ Code source @ ''" AND C.asset_issuer="'' @ Issuer source
       @ ''") OR (B.asset_code="'' @ Code dest @ ''" AND B.asset_issuer="'' @ Issuer dest @ ''"))''\<close>

definition counterAssetSelect :: string where
  "counterAssetSelect = ''SUM(T.base_amount)/SUM(T.counter_amount)''"

definition createRateTradeQuery ::
  "(string \<Rightarrow> string \<Rightarrow> string \<Rightarrow> string) \<Rightarrow> int \<Rightarrow> Asset \<Rightarrow> Asset \<Rightarrow> string \<Rightarrow> string \<Rightarrow> string \<Rightarrow> string"
where
  \<open>createRateTradeQuery getTitleField queryLimit source dest startUnixTimestamp endUnixTimestamp aggregateBy =
     (let titleField = getTitleField ''L.sequence'' ''L.closed_at'' aggregateBy;
          query = ''SELECT '' @ titleField @ '', CASE WHEN '' @ baseAssetMatch source dest
                    @ '' THEN '' @ baseAssetSelect @ '' WHEN '' @ counterAssetMatch source dest
                    @ '' THEN '' @ counterAssetSelect @ '' END AS rate,'';
          query = query @ '' FROM `crypto-stellar.crypto_stellar.history_trades` T'';
          query = query @ '' JOIN `crypto-stellar.crypto_stellar.history_assets` B ON B.id=T.base_asset_id'';
          query = query @ '' JOIN `crypto-stellar.crypto_stellar.history_assets` C ON C.id=T.counter_asset_id'';
          query = query @ '' JOIN `crypto-stellar.crypto_stellar.history_ledgers` L ON L.closed_at=T.ledger_closed_at'';
          query = query @ '' WHERE ('' @ baseAssetMatch source dest @ '' OR '' @ counterAssetMatch source dest @ '')'';
          query = (if startUnixTimestamp \<noteq> [] \<and> endUnixTimestamp \<noteq> []
                   then query @ '' AND L.closed_at BETWEEN TIMESTAMP_SECONDS('' @ startUnixTimestamp
                          @ '') AND TIMESTAMP_SECONDS('' @ endUnixTimestamp @ '')''
                   else query);
          query = query @ '' GROUP BY title, B.asset_code, B.asset_issuer, C.asset_code, C.asset_issuer ORDER BY title ASC LIMIT ''
                    @ show_int queryLimit
      in query)\<close>

subsection \<open>The orderbook-rate query builder\<close>

definition normalMatch :: "Asset \<Rightarrow> Asset \<Rightarrow> string" where
  \<open>normalMatch source dest =
     ''(M.base_code="'' @ Code source @ ''" AND M.base_issuer="'' @ Issuer source
       @ ''" AND M.counter_code="'' @ Code dest @ ''" AND M.counter_issuer="'' @ Issuer dest @ ''")''\<close>

definition reverseMatch :: "Asset \<Rightarrow> Asset \<Rightarrow> string" where
  \<open>reverseMatch source dest =
     ''(M.base_code="'' @ Code dest @ ''" AND M.base_issuer="'' @ Issuer dest
       @ ''" AND M.counter_code="'' @ Code source @ ''" AND M.counter_issuer="'' @ Issuer source @ ''")''\<close>

definition rateCalculation :: string where
  "rateCalculation = ''(orderbooks.askPrices[OFFSET(0)]+orderbooks.bidPrices[OFFSET(0)])/2''"

definition baseIsSource :: "Asset \<Rightarrow> string" where
  \<open>baseIsSource source =
     ''orderbooks.base_code="'' @ Code source @ ''" AND orderbooks.base_issuer="'' @ Issuer source @ ''"''\<close>

definition createRateQuery ::
  "(string \<Rightarrow> string \<Rightarrow> string \<Rightarrow> string) \<Rightarrow> int \<Rightarrow> Asset \<Rightarrow> Asset \<Rightarrow> string \<Rightarrow> string \<Rightarrow> string \<Rightarrow> string"
where
  \<open>createRateQuery getTitleField queryLimit source dest startUnixTimestamp endUnixTimestamp aggregateBy =
     (let titleField = getTitleField ''E.ledger_id'' ''L.closed_at'' aggregateBy;
          query = ''WITH orderbooks AS ('';
          query = query @ '' SELECT '' @ titleField @ '', M.base_code, M.base_issuer, M.counter_code, M.counter_issuer,'';
          query = query @ '' ARRAY_AGG(CASE WHEN O.action="b" THEN O.price END IGNORE NULLS ORDER BY O.price DESC) AS bidPrices,'';
          query = query @ '' ARRAY_AGG(CASE WHEN O.action="s" THEN O.price END IGNORE NULLS ORDER BY O.price ASC) AS askPrices,'';
          query = query @ '' FROM `hubble-261722.liquidity_data.fact_offer_events` AS E'';
          query = query @ '' INNER JOIN `hubble-261722.liquidity_data.dim_offers` O ON (E.offer_instance_id = O.dim_offer_id)'';
          query = query @ '' INNER JOIN `hubble-261722.liquidity_data.dim_markets` M ON (M.market_id = O.market_id)'';
          query = query @ '' INNER JOIN `hubble-261722.crypto_stellar_internal.history_ledgers` L ON (L.sequence = E.ledger_id)'';
          query = query @ '' WHERE ('' @ normalMatch source dest @ '' OR '' @ reverseMatch source dest @ '')'';
          query = (if startUnixTimestamp \<noteq> [] \<and> endUnixTimestamp \<noteq> []
                   then query @ '' AND L.closed_at BETWEEN TIMESTAMP_SECONDS('' @ startUnixTimestamp
                          @ '') AND TIMESTAMP_SECONDS('' @ endUnixTimestamp @ '')''
                   else query);
          query = query @ '' GROUP by title, M.base_code, M.base_issuer, M.counter_code, M.counter_issuer)'';
          query = query @ '' SELECT orderbooks.title, CASE WHEN '' @ baseIsSource source @ '' THEN '' @ rateCalculation
                    @ '' ELSE 1/('' @ rateCalculation @ '') END AS rate FROM orderbooks'';
          query = query @ '' WHERE '' @ rateCalculation @ '' IS NOT NULL'';
          query = query @ '' ORDER BY orderbooks.title ASC LIMIT '' @ show_int queryLimit
      in query)\<close>

subsection \<open>The executor\<close>

text \<open>
  \<^verbatim>\<open>runQuery\<close>, the BigQuery client and its row iterator are outside \<^verbatim>\<open>rate.go\<close>.
  A client is modelled by what \<^verbatim>\<open>RunRateQuery\<close> observes of it: submitting a
  statement gives an error or an iterator, and \<^verbatim>\<open>it.Next\<close> gives
  \<^verbatim>\<open>iterator.Done\<close>, another error, or a decoded row together with the advanced
  iterator.  Errors are identified with their messages (\<^verbatim>\<open>%v\<close> prints
  \<^verbatim>\<open>err.Error()\<close>); the row type \<^verbatim>\<open>RateResult\<close> stays a type parameter.
\<close>

datatype 'r next_result = Done | Failed string | Row 'r

record ('it, 'r) client =
  runQuery :: "string \<Rightarrow> string + 'it"
  nextRow :: "'it \<Rightarrow> 'r next_result \<times> 'it"

text \<open>
  The \<^verbatim>\<open>for\<close> loop has no bound of its own: it ends when the iterator reports
  \<^verbatim>\<open>Done\<close> or an error.  \<open>None\<close> stands for a loop that never ends; \<open>Inl\<close>
  is Go's \<^verbatim>\<open>(nil, err)\<close> and \<open>Inr\<close> is \<^verbatim>\<open>(results, nil)\<close>.
\<close>

partial_function (option) drainRows ::
  "('it \<Rightarrow> 'r next_result \<times> 'it) \<Rightarrow> 'it \<Rightarrow> 'r list \<Rightarrow> (string + 'r list) option"
where
  "drainRows nxt it results =
     (case nxt it of
        (Done, _) \<Rightarrow> Some (Inr results)
      | (Failed err, _) \<Rightarrow> Some (Inl (''error parsing results from query: '' @ err))
      | (Row res, it') \<Rightarrow> drainRows nxt it' (results @ [res]))"

definition RunRateQuery ::
  "(string \<Rightarrow> string \<Rightarrow> string \<Rightarrow> string) \<Rightarrow> int \<Rightarrow> Asset \<Rightarrow> Asset \<Rightarrow> string \<Rightarrow> string \<Rightarrow> string
     \<Rightarrow> ('it, 'r) client \<Rightarrow> (string + 'r list) option"
where
  "RunRateQuery getTitleField queryLimit source dest startUnixTimestamp endUnixTimestamp aggregateBy cl =
     (let query = createRateQuery getTitleField queryLimit source dest startUnixTimestamp endUnixTimestamp aggregateBy
      in case runQuery cl query of
           Inl err \<Rightarrow> Some (Inl (''error running query \<newline>'' @ query @ ''\<newline>'' @ err))
         | Inr it \<Rightarrow> drainRows (nextRow cl) it [])"

text \<open>
  A cursor given by the finite list of what its remaining calls to \<^verbatim>\<open>Next\<close> return:
  a decoded row or a decoding error, with \<^verbatim>\<open>Done\<close> once the list is used up.
\<close>

fun listNext :: "(string + 'r) list \<Rightarrow> 'r next_result \<times> (string + 'r) list" where
  "listNext [] = (Done, [])"
| "listNext (Inr res # rest) = (Row res, rest)"
| "listNext (Inl err # rest) = (Failed err, rest)"

definition listClient :: "(string \<Rightarrow> string + (string + 'r) list) \<Rightarrow> ((string + 'r) list, 'r) client" where
  "listClient run = \<lparr>runQuery = run, nextRow = listNext\<rparr>"

subsection \<open>The statements as syntax trees\<close>

text \<open>
  What the two builders print, read back as structured SQL: conditions over columns,
  scalar expressions, \<^verbatim>\<open>CASE\<close> expressions, the filters of a \<^verbatim>\<open>WHERE\<close>
  clause and the statement around them.  Each tree is tied to the text of the builder
  by a rendering function; the lemmas \<open>render_tradeRateStatement\<close> and
  \<open>render_orderbookRateStatement\<close> below show that rendering gives back the builder's
  text character for character.  The builders splice codes, issuers and time bounds
  without escaping; the trees describe a statement as the builder composes it.
\<close>

datatype sql_cond =
    ColEq string string
  | And sql_cond sql_cond
  | Or sql_cond sql_cond
  | Paren sql_cond

fun render_cond :: "sql_cond \<Rightarrow> string" where
  \<open>render_cond (ColEq col v) = col @ ''="'' @ v @ ''"''\<close>
| \<open>render_cond (And a b) = render_cond a @ '' AND '' @ render_cond b\<close>
| \<open>render_cond (Or a b) = render_cond a @ '' OR '' @ render_cond b\<close>
| \<open>render_cond (Paren a) = ''('' @ render_cond a @ '')''\<close>

datatype sql_expr =
    Sum string
  | ArrayFirst string
  | Lit int
  | Add sql_expr sql_expr
  | Quot sql_expr sql_expr
  | ParenE sql_expr

fun render_expr :: "sql_expr \<Rightarrow> string" where
  "render_expr (Sum col) = ''SUM('' @ col @ '')''"
| "render_expr (ArrayFirst arr) = arr @ ''[OFFSET(0)]''"
| "render_expr (Lit n) = show_int n"
| "render_expr (Add a b) = render_expr a @ ''+'' @ render_expr b"
| "render_expr (Quot a b) = render_expr a @ ''/'' @ render_expr b"
| "render_expr (ParenE a) = ''('' @ render_expr a @ '')''"

datatype sql_case = CaseWhen "(sql_cond \<times> sql_expr) list" "sql_expr option"

fun render_whens :: "(sql_cond \<times> sql_expr) list \<Rightarrow> string" where
  "render_whens [] = []"
| "render_whens ((c, e) # ws) = '' WHEN '' @ render_cond c @ '' THEN '' @ render_expr e @ render_whens ws"

fun render_case :: "sql_case \<Rightarrow> string" where
  "render_case (CaseWhen ws els) =
     ''CASE'' @ render_whens ws @ (case els of None \<Rightarrow> [] | Some e \<Rightarrow> '' ELSE '' @ render_expr e) @ '' END''"

datatype sql_filter =
    Match sql_cond
  | BetweenSeconds string string string
  | IsNotNull sql_expr

fun render_filter :: "sql_filter \<Rightarrow> string" where
  "render_filter (Match c) = render_cond c"
| "render_filter (BetweenSeconds col lo hi) =
     col @ '' BETWEEN TIMESTAMP_SECONDS('' @ lo @ '') AND TIMESTAMP_SECONDS('' @ hi @ '')''"
| "render_filter (IsNotNull e) = render_expr e @ '' IS NOT NULL''"



datatype sel_item = Verbatim string | CaseAs sql_case string

fun render_item :: "sel_item \<Rightarrow> string" where
  "render_item (Verbatim s) = s"
| "render_item (CaseAs c name) = render_case c @ '' AS '' @ name"

fun join :: "string \<Rightarrow> string list \<Rightarrow> string" where
  "join sep [] = []"
| "join sep [x] = x"
| "join sep (x # y # ys) = x @ sep @ join sep (y # ys)"

text \<open>
  One \<^verbatim>\<open>SELECT\<close>: its items (the builders end some lists with a comma), the
  \<^verbatim>\<open>FROM\<close> and \<^verbatim>\<open>JOIN\<close> text, the filters joined by \<^verbatim>\<open>AND\<close>, the
  \<^verbatim>\<open>GROUP BY\<close> text (empty when absent) and the ordering column with the row limit.
\<close>

record sql_select =
  items :: "sel_item list"
  trailing_comma :: bool
  from_joins :: string
  filters :: "sql_filter list"
  grouping :: string
  order_limit :: "(string \<times> int) option"

definition render_select :: "sql_select \<Rightarrow> string" where
  "render_select s =
     ''SELECT '' @ join '', '' (map render_item (items s)) @ (if trailing_comma s then '','' else [])
       @ from_joins s
       @ (if filters s = [] then [] else '' WHERE '' @ join '' AND '' (map render_filter (filters s)))
       @ grouping s
       @ (case order_limit s of None \<Rightarrow> [] | Some (col, n) \<Rightarrow> '' ORDER BY '' @ col @ '' ASC LIMIT '' @ show_int n)"

datatype sql_stmt = Select sql_select | With string sql_select sql_select

fun render_stmt :: "sql_stmt \<Rightarrow> string" where
  "render_stmt (Select s) = render_select s"
| "render_stmt (With name inner outer) =
     ''WITH '' @ name @ '' AS ('' @ '' '' @ render_select inner @ '')'' @ '' '' @ render_select outer"

subsubsection \<open>The trade-rate statement\<close>

definition legIs :: "string \<Rightarrow> string \<Rightarrow> Asset \<Rightarrow> sql_cond" where
  "legIs codeCol issuerCol a = And (ColEq codeCol (Code a)) (ColEq issuerCol (Issuer a))"

definition baseAssetMatchCond :: "Asset \<Rightarrow> Asset \<Rightarrow> sql_cond" where
  "baseAssetMatchCond source dest =
     Paren (Or (Paren (legIs ''B.asset_code'' ''B.asset_issuer'' source))
               (Paren (legIs ''C.asset_code'' ''C.asset_issuer'' dest)))"

definition counterAssetMatchCond :: "Asset \<Rightarrow> Asset \<Rightarrow> sql_cond" where
  "counterAssetMatchCond source dest =
     Paren (Or (Paren (legIs ''C.asset_code'' ''C.asset_issuer'' source))
               (Paren (legIs ''B.asset_code'' ''B.asset_issuer'' dest)))"

definition baseAssetSelectExpr :: sql_expr where
  "baseAssetSelectExpr = Quot (Sum ''T.counter_amount'') (Sum ''T.base_amount'')"

definition counterAssetSelectExpr :: sql_expr where
  "counterAssetSelectExpr = Quot (Sum ''T.base_amount'') (Sum ''T.counter_amount'')"

definition tradeRateCase :: "Asset \<Rightarrow> Asset \<Rightarrow> sql_case" where
  "tradeRateCase source dest =
     CaseWhen [(baseAssetMatchCond source dest, baseAssetSelectExpr),
               (counterAssetMatchCond source dest, counterAssetSelectExpr)] None"

definition tradeWhereCond :: "Asset \<Rightarrow> Asset \<Rightarrow> sql_cond" where
  "tradeWhereCond source dest = Paren (Or (baseAssetMatchCond source dest) (counterAssetMatchCond source dest))"

definition timeFilters :: "string \<Rightarrow> string \<Rightarrow> sql_filter list" where
  "timeFilters startUnixTimestamp endUnixTimestamp =
     (if startUnixTimestamp \<noteq> [] \<and> endUnixTimestamp \<noteq> []
      then [BetweenSeconds ''L.closed_at'' startUnixTimestamp endUnixTimestamp] else [])"

definition tradeRateSelect ::
  "(string \<Rightarrow> string \<Rightarrow> string \<Rightarrow> string) \<Rightarrow> int \<Rightarrow> Asset \<Rightarrow> Asset \<Rightarrow> string \<Rightarrow> string \<Rightarrow> string \<Rightarrow> sql_select"
where
  "tradeRateSelect getTitleField queryLimit source dest startUnixTimestamp endUnixTimestamp aggregateBy =
     \<lparr> items = [Verbatim (getTitleField ''L.sequence'' ''L.closed_at'' aggregateBy),
                CaseAs (tradeRateCase source dest) ''rate''],
       trailing_comma = True,
       from_joins = '' FROM `crypto-stellar.crypto_stellar.history_trades` T''
         @ '' JOIN `crypto-stellar.crypto_stellar.history_assets` B ON B.id=T.base_asset_id''
         @ '' JOIN `crypto-stellar.crypto_stellar.history_assets` C ON C.id=T.counter_asset_id''
         @ '' JOIN `crypto-stellar.crypto_stellar.history_ledgers` L ON L.closed_at=T.ledger_closed_at'',
       filters = Match (tradeWhereCond source dest) # timeFilters startUnixTimestamp endUnixTimestamp,
       grouping = '' GROUP BY title, B.asset_code, B.asset_issuer, C.asset_code, C.asset_issuer'',
       order_limit = Some (''title'', queryLimit) \<rparr>"

definition tradeRateStatement ::
  "(string \<Rightarrow> string \<Rightarrow> string \<Rightarrow> string) \<Rightarrow> int \<Rightarrow> Asset \<Rightarrow> Asset \<Rightarrow> string \<Rightarrow> string \<Rightarrow> string \<Rightarrow> sql_stmt"
where
  "tradeRateStatement getTitleField queryLimit source dest startUnixTimestamp endUnixTimestamp aggregateBy =
     Select (tradeRateSelect getTitleField queryLimit source dest startUnixTimestamp endUnixTimestamp aggregateBy)"

subsubsection \<open>The orderbook-rate statement\<close>

definition marketIs :: "Asset \<Rightarrow> Asset \<Rightarrow> sql_cond" where
  "marketIs b c =
     Paren (And (ColEq ''M.base_code'' (Code b)) (And (ColEq ''M.base_issuer'' (Issuer b))
           (And (ColEq ''M.counter_code'' (Code c)) (ColEq ''M.counter_issuer'' (Issuer c)))))"

definition normalMatchCond :: "Asset \<Rightarrow> Asset \<Rightarrow> sql_cond" where
  "normalMatchCond source dest = marketIs source dest"

definition reverseMatchCond :: "Asset \<Rightarrow> Asset \<Rightarrow> sql_cond" where
  "reverseMatchCond source dest = marketIs dest source"

definition orderbookWhereCond :: "Asset \<Rightarrow> Asset \<Rightarrow> sql_cond" where
  "orderbookWhereCond source dest = Paren (Or (normalMatchCond source dest) (reverseMatchCond source dest))"

definition rateCalculationExpr :: sql_expr where
  "rateCalculationExpr =
     Quot (ParenE (Add (ArrayFirst ''orderbooks.askPrices'') (ArrayFirst ''orderbooks.bidPrices''))) (Lit 2)"

definition reciprocalExpr :: "sql_expr \<Rightarrow> sql_expr" where
  "reciprocalExpr e = Quot (Lit 1) (ParenE e)"

definition baseIsSourceCond :: "Asset \<Rightarrow> sql_cond" where
  "baseIsSourceCond source = legIs ''orderbooks.base_code'' ''orderbooks.base_issuer'' source"

definition orderbookRateCase :: "Asset \<Rightarrow> sql_case" where
  "orderbookRateCase source =
     CaseWhen [(baseIsSourceCond source, rateCalculationExpr)] (Some (reciprocalExpr rateCalculationExpr))"

definition orderbooksSelect ::
  "(string \<Rightarrow> string \<Rightarrow> string \<Rightarrow> string) \<Rightarrow> Asset \<Rightarrow> Asset \<Rightarrow> string \<Rightarrow> string \<Rightarrow> string \<Rightarrow> sql_select"
where
  \<open>orderbooksSelect getTitleField source dest startUnixTimestamp endUnixTimestamp aggregateBy =
     \<lparr> items = [Verbatim (getTitleField ''E.ledger_id'' ''L.closed_at'' aggregateBy),
                Verbatim ''M.base_code'', Verbatim ''M.base_issuer'',
                Verbatim ''M.counter_code'', Verbatim ''M.counter_issuer'',
                Verbatim ''ARRAY_AGG(CASE WHEN O.action="b" THEN O.price END IGNORE NULLS ORDER BY O.price DESC) AS bidPrices'',
                Verbatim ''ARRAY_AGG(CASE WHEN O.action="s" THEN O.price END IGNORE NULLS ORDER BY O.price ASC) AS askPrices''],
       trailing_comma = True,
       from_joins = '' FROM `hubble-261722.liquidity_data.fact_offer_events` AS E''
         @ '' INNER JOIN `hubble-261722.liquidity_data.dim_offers` O ON (E.offer_instance_id = O.dim_offer_id)''
         @ '' INNER JOIN `hubble-261722.liquidity_data.dim_markets` M ON (M.market_id = O.market_id)''
         @ '' INNER JOIN `hubble-261722.crypto_stellar_internal.history_ledgers` L ON (L.sequence = E.ledger_id)'',
       filters = Match (orderbookWhereCond source dest) # timeFilters startUnixTimestamp endUnixTimestamp,
       grouping = '' GROUP by title, M.base_code, M.base_issuer, M.counter_code, M.counter_issuer'',
       order_limit = None \<rparr>\<close>

definition orderbookRateSelect :: "int \<Rightarrow> Asset \<Rightarrow> sql_select" where
  "orderbookRateSelect queryLimit source =
     \<lparr> items = [Verbatim ''orderbooks.title'', CaseAs (orderbookRateCase source) ''rate''],
       trailing_comma = False,
       from_joins = '' FROM orderbooks'',
       filters = [IsNotNull rateCalculationExpr],
       grouping = [],
       order_limit = Some (''orderbooks.title'', queryLimit) \<rparr>"

definition orderbookRateStatement ::
  "(string \<Rightarrow> string \<Rightarrow> string \<Rightarrow> string) \<Rightarrow> int \<Rightarrow> Asset \<Rightarrow> Asset \<Rightarrow> string \<Rightarrow> string \<Rightarrow> string \<Rightarrow> sql_stmt"
where
  "orderbookRateStatement getTitleField queryLimit source dest startUnixTimestamp endUnixTimestamp aggregateBy =
     With ''orderbooks''
       (orderbooksSelect getTitleField source dest startUnixTimestamp endUnixTimestamp aggregateBy)
       (orderbookRateSelect queryLimit source)"

subsection \<open>Meaning of the generated conditions and expressions\<close>

text \<open>
  A row gives the text columns their values, the \<^verbatim>\<open>SUM\<close> aggregates of a group
  their values and the array columns their contents; \<open>None\<close> is SQL's
  \<^verbatim>\<open>NULL\<close>.  Amounts and prices are exact rationals: the properties below concern
  which formula a statement applies, not rounding.  Text columns are never
  \<^verbatim>\<open>NULL\<close>, so a comparison is true or false.
\<close>

record sql_row =
  text_of :: "string \<Rightarrow> string"
  sum_of :: "string \<Rightarrow> rat option"
  array_of :: "string \<Rightarrow> rat list option"

fun eval_cond :: "(string \<Rightarrow> string) \<Rightarrow> sql_cond \<Rightarrow> bool" where
  "eval_cond cols (ColEq col v) = (cols col = v)"
| "eval_cond cols (And a b) = (eval_cond cols a \<and> eval_cond cols b)"
| "eval_cond cols (Or a b) = (eval_cond cols a \<or> eval_cond cols b)"
| "eval_cond cols (Paren a) = eval_cond cols a"

datatype sql_error = DivisionByZero | ArrayIndexOutOfBounds

text \<open>
  Arithmetic on \<^verbatim>\<open>NULL\<close> is \<^verbatim>\<open>NULL\<close>; dividing by zero fails the query;
  \<^verbatim>\<open>arr[OFFSET(0)]\<close> is \<^verbatim>\<open>NULL\<close> on a \<^verbatim>\<open>NULL\<close> array, the first element
  of a non-empty one, and fails on an empty one.
\<close>

fun eval_expr :: "sql_row \<Rightarrow> sql_expr \<Rightarrow> sql_error + rat option" where
  "eval_expr r (Sum col) = Inr (sum_of r col)"
| "eval_expr r (ArrayFirst arr) =
     (case array_of r arr of
        None \<Rightarrow> Inr None
      | Some [] \<Rightarrow> Inl ArrayIndexOutOfBounds
      | Some (x # xs) \<Rightarrow> Inr (Some x))"
| "eval_expr r (Lit n) = Inr (Some (of_int n))"
| "eval_expr r (Add a b) =
     (case eval_expr r a of
        Inl err \<Rightarrow> Inl err
      | Inr x \<Rightarrow>
          (case eval_expr r b of
             Inl err \<Rightarrow> Inl err
           | Inr y \<Rightarrow>
               (case (x, y) of
                  (Some u, Some v) \<Rightarrow> Inr (Some (u + v))
                | _ \<Rightarrow> Inr None)))"
| "eval_expr r (Quot a b) =
     (case eval_expr r a of
        Inl err \<Rightarrow> Inl err
      | Inr x \<Rightarrow>
          (case eval_expr r b of
             Inl err \<Rightarrow> Inl err
           | Inr y \<Rightarrow>
               (case (x, y) of
                  (Some u, Some v) \<Rightarrow> if v = 0 then Inl DivisionByZero else Inr (Some (u / v))
                | _ \<Rightarrow> Inr None)))"
| "eval_expr r (ParenE a) = eval_expr r a"

text \<open>
  A \<^verbatim>\<open>CASE\<close> takes the first \<^verbatim>\<open>WHEN\<close> whose condition holds, else the
  \<^verbatim>\<open>ELSE\<close> branch; with neither, its value is \<^verbatim>\<open>NULL\<close>.
\<close>

fun first_when :: "(string \<Rightarrow> string) \<Rightarrow> (sql_cond \<times> sql_expr) list \<Rightarrow> sql_expr option" where
  "first_when cols [] = None"
| "first_when cols ((c, e) # ws) = (if eval_cond cols c then Some e else first_when cols ws)"

fun select_branch :: "(string \<Rightarrow> string) \<Rightarrow> sql_case \<Rightarrow> sql_expr option" where
  "select_branch cols (CaseWhen ws els) =
     (case first_when cols ws of Some e \<Rightarrow> Some e | None \<Rightarrow> els)"

definition eval_case :: "sql_row \<Rightarrow> sql_case \<Rightarrow> sql_error + rat option" where
  "eval_case r c = (case select_branch (text_of r) c of None \<Rightarrow> Inr None | Some e \<Rightarrow> eval_expr r e)"


text \<open>
  The rows the statements look at.  A group of trades has a base leg \<^verbatim>\<open>B\<close>, a
  counter leg \<^verbatim>\<open>C\<close> and the two sums over its trades; a market of the orderbook
  tables has a base and a counter leg (\<^verbatim>\<open>M\<close>); a row of the intermediate table
  \<^verbatim>\<open>orderbooks\<close> carries the market's legs and the two price arrays.
\<close>

definition tradeColumns :: "Asset \<Rightarrow> Asset \<Rightarrow> string \<Rightarrow> string" where
  "tradeColumns b c col =
     (if col = ''B.asset_code'' then Code b
      else if col = ''B.asset_issuer'' then Issuer b
      else if col = ''C.asset_code'' then Code c
      else if col = ''C.asset_issuer'' then Issuer c
      else [])"

definition tradeGroup :: "Asset \<Rightarrow> Asset \<Rightarrow> rat option \<Rightarrow> rat option \<Rightarrow> sql_row" where
  "tradeGroup b c sumBase sumCounter =
     \<lparr> text_of = tradeColumns b c,
       sum_of = (\<lambda>col. if col = ''T.base_amount'' then sumBase
                       else if col = ''T.counter_amount'' then sumCounter else None),
       array_of = (\<lambda>arr. None) \<rparr>"




text \<open>
  The two orientations in the words of the specification: the stored pair is the
  requested pair, or the requested pair reversed.
\<close>

definition forwardOrientation :: "Asset \<Rightarrow> Asset \<Rightarrow> Asset \<Rightarrow> Asset \<Rightarrow> bool" where
  "forwardOrientation source dest b c = (b = source \<and> c = dest)"

definition reverseOrientation :: "Asset \<Rightarrow> Asset \<Rightarrow> Asset \<Rightarrow> Asset \<Rightarrow> bool" where
  "reverseOrientation source dest b c = (c = source \<and> b = dest)"

text \<open>
  Running an iterator along an expected sequence of rows: the iterator state reached
  when its next calls return exactly these rows, decoded, in this order.
\<close>

fun afterRows :: "('it \<Rightarrow> 'r next_result \<times> 'it) \<Rightarrow> 'it \<Rightarrow> 'r list \<Rightarrow> 'it option" where
  "afterRows nxt it [] = Some it"
| "afterRows nxt it (r # rs) =
     (case nxt it of
        (Row res, it') \<Rightarrow> if res = r then afterRows nxt it' rs else None
      | _ \<Rightarrow> None)"



text \<open>
  Example inputs: the two assets of the specification's end-to-end scenario, a third
  asset, and a title function that prints the per-ledger label of the sample query in
  \<^verbatim>\<open>rate.go\<close> (\<^verbatim>\<open>getTitleField\<close> itself is not in that file).
\<close>

definition ngnt :: Asset where
  "ngnt = \<lparr>Code = ''NGNT'', Issuer = ''ISSUER_A''\<rparr>"

definition eurt :: Asset where
  "eurt = \<lparr>Code = ''EURT'', Issuer = ''ISSUER_B''\<rparr>"

definition usdx :: Asset where
  "usdx = \<lparr>Code = ''USDX'', Issuer = ''ISSUER_C''\<rparr>"

definition sampleTitleField :: "string \<Rightarrow> string \<Rightarrow> string \<Rightarrow> string" where
  \<open>sampleTitleField sequenceField closedAtField aggregateBy =
     ''FORMAT("Ledger %d", '' @ sequenceField @ '') AS title''\<close>

section \<open>Rendering gives back the builders' text\<close>

lemma show_int_1: "show_int 1 = ''1''"
  by code_simp

lemma show_int_2: "show_int 2 = ''2''"
  by code_simp

lemma render_baseAssetMatchCond: "render_cond (baseAssetMatchCond s d) = baseAssetMatch s d"
  by (simp add: baseAssetMatchCond_def baseAssetMatch_def legIs_def)

lemma render_counterAssetMatchCond: "render_cond (counterAssetMatchCond s d) = counterAssetMatch s d"
  by (simp add: counterAssetMatchCond_def counterAssetMatch_def legIs_def)

lemma render_normalMatchCond: "render_cond (normalMatchCond s d) = normalMatch s d"
  by (simp add: normalMatchCond_def marketIs_def normalMatch_def)

lemma render_reverseMatchCond: "render_cond (reverseMatchCond s d) = reverseMatch s d"
  by (simp add: reverseMatchCond_def marketIs_def reverseMatch_def)

lemma render_baseIsSourceCond: "render_cond (baseIsSourceCond s) = baseIsSource s"
  by (simp add: baseIsSourceCond_def legIs_def baseIsSource_def)

lemma render_rateCalculationExpr: "render_expr rateCalculationExpr = rateCalculation"
  by (simp add: rateCalculationExpr_def rateCalculation_def show_int_2)

lemma render_baseAssetSelectExpr: "render_expr baseAssetSelectExpr = baseAssetSelect"
  by (simp add: baseAssetSelectExpr_def baseAssetSelect_def)

lemma render_counterAssetSelectExpr: "render_expr counterAssetSelectExpr = counterAssetSelect"
  by (simp add: counterAssetSelectExpr_def counterAssetSelect_def)

lemma render_reciprocalExpr: "render_expr (reciprocalExpr e) = ''1/('' @ render_expr e @ '')''"
  by (simp add: reciprocalExpr_def show_int_1)

lemma render_tradeRateCase:
  "render_case (tradeRateCase s d) =
     ''CASE WHEN '' @ baseAssetMatch s d @ '' THEN '' @ baseAssetSelect
       @ '' WHEN '' @ counterAssetMatch s d @ '' THEN '' @ counterAssetSelect @ '' END''"
  by (simp add: tradeRateCase_def render_baseAssetMatchCond render_counterAssetMatchCond
      render_baseAssetSelectExpr render_counterAssetSelectExpr)

lemma render_orderbookRateCase:
  "render_case (orderbookRateCase s) =
     ''CASE WHEN '' @ baseIsSource s @ '' THEN '' @ rateCalculation
       @ '' ELSE 1/('' @ rateCalculation @ '') END''"
  by (simp add: orderbookRateCase_def render_baseIsSourceCond render_rateCalculationExpr
      render_reciprocalExpr)

lemma render_tradeWhereCond:
  "render_cond (tradeWhereCond s d) = ''('' @ baseAssetMatch s d @ '' OR '' @ counterAssetMatch s d @ '')''"
  by (simp add: tradeWhereCond_def render_baseAssetMatchCond render_counterAssetMatchCond)

lemma render_orderbookWhereCond:
  "render_cond (orderbookWhereCond s d) = ''('' @ normalMatch s d @ '' OR '' @ reverseMatch s d @ '')''"
  by (simp add: orderbookWhereCond_def render_normalMatchCond render_reverseMatchCond)

lemma join_timeFilters:
  "join '' AND '' (x # map render_filter (timeFilters st en)) =
     x @ (if st \<noteq> [] \<and> en \<noteq> []
          then '' AND L.closed_at BETWEEN TIMESTAMP_SECONDS('' @ st @ '') AND TIMESTAMP_SECONDS('' @ en @ '')''
          else [])"
  by (simp add: timeFilters_def)

lemma render_tradeRateStatement:
  "render_stmt (tradeRateStatement g n s d st en a) = createRateTradeQuery g n s d st en a"
proof -
  define f1 where "f1 = '' FROM `crypto-stellar.crypto_stellar.history_trades` T''"
  define f2 where "f2 = '' JOIN `crypto-stellar.crypto_stellar.history_assets` B ON B.id=T.base_asset_id''"
  define f3 where "f3 = '' JOIN `crypto-stellar.crypto_stellar.history_assets` C ON C.id=T.counter_asset_id''"
  define f4 where "f4 = '' JOIN `crypto-stellar.crypto_stellar.history_ledgers` L ON L.closed_at=T.ledger_closed_at''"
  define gb where "gb = '' GROUP BY title, B.asset_code, B.asset_issuer, C.asset_code, C.asset_issuer''"
  have tail: "'' GROUP BY title, B.asset_code, B.asset_issuer, C.asset_code, C.asset_issuer ORDER BY title ASC LIMIT ''
      = gb @ '' ORDER BY title ASC LIMIT ''"
    by (simp add: gb_def)
  show ?thesis
    unfolding tradeRateStatement_def tradeRateSelect_def createRateTradeQuery_def tail
      f1_def[symmetric] f2_def[symmetric] f3_def[symmetric] f4_def[symmetric] gb_def[symmetric]
    by (simp add: render_select_def Let_def render_tradeRateCase join_timeFilters render_tradeWhereCond)
qed

lemma render_orderbookRateStatement:
  "render_stmt (orderbookRateStatement g n s d st en a) = createRateQuery g n s d st en a"
proof -
  define bids where \<open>bids = ''ARRAY_AGG(CASE WHEN O.action="b" THEN O.price END IGNORE NULLS ORDER BY O.price DESC) AS bidPrices''\<close>
  define asks where \<open>asks = ''ARRAY_AGG(CASE WHEN O.action="s" THEN O.price END IGNORE NULLS ORDER BY O.price ASC) AS askPrices''\<close>
  define f1 where "f1 = '' FROM `hubble-261722.liquidity_data.fact_offer_events` AS E''"
  define f2 where "f2 = '' INNER JOIN `hubble-261722.liquidity_data.dim_offers` O ON (E.offer_instance_id = O.dim_offer_id)''"
  define f3 where "f3 = '' INNER JOIN `hubble-261722.liquidity_data.dim_markets` M ON (M.market_id = O.market_id)''"
  define f4 where "f4 = '' INNER JOIN `hubble-261722.crypto_stellar_internal.history_ledgers` L ON (L.sequence = E.ledger_id)''"
  define gb where "gb = '' GROUP by title, M.base_code, M.base_issuer, M.counter_code, M.counter_issuer''"
  have bids': \<open>'' ARRAY_AGG(CASE WHEN O.action="b" THEN O.price END IGNORE NULLS ORDER BY O.price DESC) AS bidPrices,''
      = '' '' @ bids @ '',''\<close>
    by (simp add: bids_def)
  have asks': \<open>'' ARRAY_AGG(CASE WHEN O.action="s" THEN O.price END IGNORE NULLS ORDER BY O.price ASC) AS askPrices,''
      = '' '' @ asks @ '',''\<close>
    by (simp add: asks_def)
  have gb': "'' GROUP by title, M.base_code, M.base_issuer, M.counter_code, M.counter_issuer)'' = gb @ '')''"
    by (simp add: gb_def)
  show ?thesis
    unfolding orderbookRateStatement_def orderbooksSelect_def orderbookRateSelect_def createRateQuery_def
      bids' asks' gb'
      bids_def[symmetric] asks_def[symmetric]
      f1_def[symmetric] f2_def[symmetric] f3_def[symmetric] f4_def[symmetric] gb_def[symmetric]
    by (simp add: render_select_def Let_def render_orderbookRateCase join_timeFilters
        render_orderbookWhereCond render_rateCalculationExpr)
qed


section \<open>Ordering and row limit\<close>

lemma render_select_ordered:
  assumes "order_limit s = Some (col, n)"
  shows "suffix ('' ORDER BY '' @ col @ '' ASC LIMIT '' @ show_int n) (render_select s)"
proof -
  have "render_select s =
      (''SELECT '' @ join '', '' (map render_item (items s)) @ (if trailing_comma s then '','' else [])
        @ from_joins s
        @ (if filters s = [] then [] else '' WHERE '' @ join '' AND '' (map render_filter (filters s)))
        @ grouping s) @ ('' ORDER BY '' @ col @ '' ASC LIMIT '' @ show_int n)"
    using assms by (simp add: render_select_def)
  then show ?thesis
    by (rule suffixI)
qed

lemma tradeRate_suffix:
  "suffix ('' ORDER BY title ASC LIMIT '' @ show_int n) (createRateTradeQuery g n s d st en a)"
proof -
  have "order_limit (tradeRateSelect g n s d st en a) = Some (''title'', n)"
    by (simp add: tradeRateSelect_def)
  from render_select_ordered [OF this]
  have "suffix ('' ORDER BY title ASC LIMIT '' @ show_int n) (render_stmt (tradeRateStatement g n s d st en a))"
    by (simp add: tradeRateStatement_def)
  then show ?thesis
    by (simp only: render_tradeRateStatement)
qed

lemma render_outer_suffix:
  "suffix xs (render_select outer) \<Longrightarrow> suffix xs (render_stmt (With name inner outer))"
proof -
  assume "suffix xs (render_select outer)"
  then obtain zs where "render_select outer = zs @ xs"
    by (auto simp: suffix_def)
  then have "render_stmt (With name inner outer) =
      (''WITH '' @ name @ '' AS ('' @ '' '' @ render_select inner @ '')'' @ '' '' @ zs) @ xs"
    by simp
  then show ?thesis
    by (rule suffixI)
qed

lemma orderbookRate_suffix:
  "suffix ('' ORDER BY orderbooks.title ASC LIMIT '' @ show_int n) (createRateQuery g n s d st en a)"
proof -
  have "order_limit (orderbookRateSelect n s) = Some (''orderbooks.title'', n)"
    by (simp add: orderbookRateSelect_def)
  from render_select_ordered [OF this]
  have "suffix ('' ORDER BY orderbooks.title ASC LIMIT '' @ show_int n) (render_select (orderbookRateSelect n s))"
    by simp
  then have "suffix ('' ORDER BY orderbooks.title ASC LIMIT '' @ show_int n)
      (render_stmt (orderbookRateStatement g n s d st en a))"
    unfolding orderbookRateStatement_def by (rule render_outer_suffix)
  then show ?thesis
    by (simp only: render_orderbookRateStatement)
qed

text \<open>
  Claim C8.  Whatever the arguments, the text of both builders ends with the ordering
  by the bucket title, ascending, followed by \<^verbatim>\<open>LIMIT\<close> and the decimal form of
  the one constant \<^verbatim>\<open>queryLimit\<close>, which is no argument of either Go function.
  The trade query orders by \<^verbatim>\<open>title\<close>, the orderbook query by the same column of
  its intermediate table, \<^verbatim>\<open>orderbooks.title\<close>.
\<close>

theorem queries_end_with_order_and_limit:
  "suffix ('' ORDER BY title ASC LIMIT '' @ show_int queryLimit)
     (createRateTradeQuery getTitleField queryLimit source dest startUnixTimestamp endUnixTimestamp aggregateBy)
   \<and> suffix ('' ORDER BY orderbooks.title ASC LIMIT '' @ show_int queryLimit)
     (createRateQuery getTitleField queryLimit source dest startUnixTimestamp endUnixTimestamp aggregateBy)"
  using tradeRate_suffix orderbookRate_suffix by blast

section \<open>The time filter\<close>










section \<open>Meaning of the match conditions and rate expressions\<close>

lemma Asset_eq_iff: "a = b \<longleftrightarrow> Code a = Code b \<and> Issuer a = Issuer b" for a b :: Asset
  by (cases a, cases b) simp

lemma eval_baseAssetMatchCond:
  "eval_cond (tradeColumns b c) (baseAssetMatchCond s d) \<longleftrightarrow> b = s \<or> c = d"
  by (simp add: baseAssetMatchCond_def legIs_def tradeColumns_def Asset_eq_iff)

lemma eval_counterAssetMatchCond:
  "eval_cond (tradeColumns b c) (counterAssetMatchCond s d) \<longleftrightarrow> c = s \<or> b = d"
  by (simp add: counterAssetMatchCond_def legIs_def tradeColumns_def Asset_eq_iff)

lemma eval_tradeWhereCond:
  "eval_cond (tradeColumns b c) (tradeWhereCond s d) \<longleftrightarrow> (b = s \<or> c = d) \<or> (c = s \<or> b = d)"
  by (simp add: tradeWhereCond_def eval_baseAssetMatchCond eval_counterAssetMatchCond)





lemma select_branch_tradeRateCase:
  "select_branch (tradeColumns b c) (tradeRateCase s d) =
     (if b = s \<or> c = d then Some baseAssetSelectExpr
      else if c = s \<or> b = d then Some counterAssetSelectExpr else None)"
  by (simp add: tradeRateCase_def eval_baseAssetMatchCond eval_counterAssetMatchCond)




section \<open>Incomplete buckets\<close>







section \<open>The orderbook rate\<close>





section \<open>The end-to-end scenario\<close>

text \<open>
  The text of both builders at the specification's end-to-end scenario, with the
  per-ledger title of the sample query and a row limit of 100.
\<close>

lemma show_int_100: "show_int 100 = ''100''"
  by code_simp

lemma tradeRate_scenario_text:
  \<open>createRateTradeQuery sampleTitleField 100 ngnt eurt ''1000'' ''2000'' ''ledger'' =
  ''SELECT FORMAT("Ledger %d", L.sequence) AS title, CASE WHEN ((B.asset_code="NGNT" AND B.asset_issuer="ISSUER_A") OR (C.asset_code="EURT" AND C.asset_issuer="ISSUER_B")) THEN SUM(T.counter_amount)/SUM(T.base_amount) WHEN ((C.asset_code="NGNT" AND C.asset_issuer="ISSUER_A") OR (B.asset_code="EURT" AND B.asset_issuer="ISSUER_B")) THEN SUM(T.base_amount)/SUM(T.counter_amount) END AS rate, FROM `crypto-stellar.crypto_stellar.history_trades` T JOIN `crypto-stellar.crypto_stellar.history_assets` B ON B.id=T.base_asset_id JOIN `crypto-stellar.crypto_stellar.history_assets` C ON C.id=T.counter_asset_id JOIN `crypto-stellar.crypto_stellar.history_ledgers` L ON L.closed_at=T.ledger_closed_at WHERE (((B.asset_code="NGNT" AND B.asset_issuer="ISSUER_A") OR (C.asset_code="EURT" AND C.asset_issuer="ISSUER_B")) OR ((C.asset_code="NGNT" AND C.asset_issuer="ISSUER_A") OR (B.asset_code="EURT" AND B.asset_issuer="ISSUER_B"))) AND L.closed_at BETWEEN TIMESTAMP_SECONDS(1000) AND TIMESTAMP_SECONDS(2000) GROUP BY title, B.asset_code, B.asset_issuer, C.asset_code, C.asset_issuer ORDER BY title ASC LIMIT 100''\<close>
  by (simp add: createRateTradeQuery_def Let_def sampleTitleField_def ngnt_def eurt_def
      baseAssetMatch_def counterAssetMatch_def baseAssetSelect_def counterAssetSelect_def show_int_100)

lemma orderbookRate_scenario_text:
  \<open>createRateQuery sampleTitleField 100 ngnt eurt ''1000'' ''2000'' ''ledger'' =
  ''WITH orderbooks AS ( SELECT FORMAT("Ledger %d", E.ledger_id) AS title, M.base_code, M.base_issuer, M.counter_code, M.counter_issuer, ARRAY_AGG(CASE WHEN O.action="b" THEN O.price END IGNORE NULLS ORDER BY O.price DESC) AS bidPrices, ARRAY_AGG(CASE WHEN O.action="s" THEN O.price END IGNORE NULLS ORDER BY O.price ASC) AS askPrices, FROM `hubble-261722.liquidity_data.fact_offer_events` AS E INNER JOIN `hubble-261722.liquidity_data.dim_offers` O ON (E.offer_instance_id = O.dim_offer_id) INNER JOIN `hubble-261722.liquidity_data.dim_markets` M ON (M.market_id = O.market_id) INNER JOIN `hubble-261722.crypto_stellar_internal.history_ledgers` L ON (L.sequence = E.ledger_id) WHERE ((M.base_code="NGNT" AND M.base_issuer="ISSUER_A" AND M.counter_code="EURT" AND M.counter_issuer="ISSUER_B") OR (M.base_code="EURT" AND M.base_issuer="ISSUER_B" AND M.counter_code="NGNT" AND M.counter_issuer="ISSUER_A")) AND L.closed_at BETWEEN TIMESTAMP_SECONDS(1000) AND TIMESTAMP_SECONDS(2000) GROUP by title, M.base_code, M.base_issuer, M.counter_code, M.counter_issuer) SELECT orderbooks.title, CASE WHEN orderbooks.base_code="NGNT" AND orderbooks.base_issuer="ISSUER_A" THEN (orderbooks.askPrices[OFFSET(0)]+orderbooks.bidPrices[OFFSET(0)])/2 ELSE 1/((orderbooks.askPrices[OFFSET(0)]+orderbooks.bidPrices[OFFSET(0)])/2) END AS rate FROM orderbooks WHERE (orderbooks.askPrices[OFFSET(0)]+orderbooks.bidPrices[OFFSET(0)])/2 IS NOT NULL ORDER BY orderbooks.title ASC LIMIT 100''\<close>
  by (simp add: createRateQuery_def Let_def sampleTitleField_def ngnt_def eurt_def
      normalMatch_def reverseMatch_def rateCalculation_def baseIsSource_def show_int_100)

section \<open>Which trades the trade-rate statement admits\<close>

lemma filters_tradeRateSelect:
  "filters (tradeRateSelect g n s d st en a) = Match (tradeWhereCond s d) # timeFilters st en"
  by (simp add: tradeRateSelect_def)

lemma eval_case_tradeRateCase:
  "eval_case (tradeGroup b c (Some sumBase) (Some sumCounter)) (tradeRateCase s d) =
     (if b = s \<or> c = d then (if sumBase = 0 then Inl DivisionByZero else Inr (Some (sumCounter / sumBase)))
      else if c = s \<or> b = d then (if sumCounter = 0 then Inl DivisionByZero else Inr (Some (sumBase / sumCounter)))
      else Inr None)"
proof -
  have "text_of (tradeGroup b c (Some sumBase) (Some sumCounter)) = tradeColumns b c"
    by (simp add: tradeGroup_def)
  moreover have "eval_expr (tradeGroup b c (Some sumBase) (Some sumCounter)) baseAssetSelectExpr
      = (if sumBase = 0 then Inl DivisionByZero else Inr (Some (sumCounter / sumBase)))"
    by (simp add: tradeGroup_def baseAssetSelectExpr_def)
  moreover have "eval_expr (tradeGroup b c (Some sumBase) (Some sumCounter)) counterAssetSelectExpr
      = (if sumCounter = 0 then Inl DivisionByZero else Inr (Some (sumBase / sumCounter)))"
    by (simp add: tradeGroup_def counterAssetSelectExpr_def)
  ultimately show ?thesis
    by (simp add: eval_case_def select_branch_tradeRateCase)
qed

text \<open>
  Claim C1 asks that a trade contribute to the rate only in one of the two full
  orientations: base leg \<open>source\<close> and counter leg \<open>dest\<close>, or the reverse.
  The builder instead joins the two leg tests of each orientation with
  \<^verbatim>\<open>OR\<close>, so its \<^verbatim>\<open>WHERE\<close> clause holds as soon as one leg matches
  (\<open>eval_tradeWhereCond\<close>).  At the scenario NGNT/ISSUER_A to EURT/ISSUER_B the
  statement is the text below; a group of trades with base NGNT/ISSUER_A and counter
  USDX/ISSUER_C is in neither orientation, yet it passes the \<^verbatim>\<open>WHERE\<close> clause
  and the first \<^verbatim>\<open>WHEN\<close> gives it the rate \<open>30 / 10\<close>.
\<close>

theorem trade_query_admits_single_leg_matches:
  \<open>createRateTradeQuery sampleTitleField 100 ngnt eurt ''1000'' ''2000'' ''ledger'' =
  ''SELECT FORMAT("Ledger %d", L.sequence) AS title, CASE WHEN ((B.asset_code="NGNT" AND B.asset_issuer="ISSUER_A") OR (C.asset_code="EURT" AND C.asset_issuer="ISSUER_B")) THEN SUM(T.counter_amount)/SUM(T.base_amount) WHEN ((C.asset_code="NGNT" AND C.asset_issuer="ISSUER_A") OR (B.asset_code="EURT" AND B.asset_issuer="ISSUER_B")) THEN SUM(T.base_amount)/SUM(T.counter_amount) END AS rate, FROM `crypto-stellar.crypto_stellar.history_trades` T JOIN `crypto-stellar.crypto_stellar.history_assets` B ON B.id=T.base_asset_id JOIN `crypto-stellar.crypto_stellar.history_assets` C ON C.id=T.counter_asset_id JOIN `crypto-stellar.crypto_stellar.history_ledgers` L ON L.closed_at=T.ledger_closed_at WHERE (((B.asset_code="NGNT" AND B.asset_issuer="ISSUER_A") OR (C.asset_code="EURT" AND C.asset_issuer="ISSUER_B")) OR ((C.asset_code="NGNT" AND C.asset_issuer="ISSUER_A") OR (B.asset_code="EURT" AND B.asset_issuer="ISSUER_B"))) AND L.closed_at BETWEEN TIMESTAMP_SECONDS(1000) AND TIMESTAMP_SECONDS(2000) GROUP BY title, B.asset_code, B.asset_issuer, C.asset_code, C.asset_issuer ORDER BY title ASC LIMIT 100''
   \<and> createRateTradeQuery sampleTitleField 100 ngnt eurt ''1000'' ''2000'' ''ledger''
       = render_stmt (Select (tradeRateSelect sampleTitleField 100 ngnt eurt ''1000'' ''2000'' ''ledger''))
   \<and> filters (tradeRateSelect sampleTitleField 100 ngnt eurt ''1000'' ''2000'' ''ledger'')
       = [Match (tradeWhereCond ngnt eurt), BetweenSeconds ''L.closed_at'' ''1000'' ''2000'']
   \<and> eval_cond (tradeColumns ngnt usdx) (tradeWhereCond ngnt eurt)
   \<and> eval_case (tradeGroup ngnt usdx (Some 10) (Some 30)) (tradeRateCase ngnt eurt) = Inr (Some 3)
   \<and> \<not> forwardOrientation ngnt eurt ngnt usdx
   \<and> \<not> reverseOrientation ngnt eurt ngnt usdx\<close>
proof -
  have "usdx \<noteq> eurt" "usdx \<noteq> ngnt" "ngnt \<noteq> eurt"
    by (simp_all add: ngnt_def eurt_def usdx_def)
  then show ?thesis
    using tradeRate_scenario_text
      render_tradeRateStatement [of sampleTitleField 100 ngnt eurt "''1000''" "''2000''" "''ledger''"]
    by (simp add: tradeRateStatement_def filters_tradeRateSelect timeFilters_def eval_tradeWhereCond
        eval_case_tradeRateCase forwardOrientation_def reverseOrientation_def)
qed

section \<open>Swapping source and destination\<close>












section \<open>The executor\<close>

lemma drainRows_Done:
  "fst (nxt it) = Done \<Longrightarrow> drainRows nxt it results = Some (Inr results)"
  by (subst drainRows.simps) (cases "nxt it", simp)

lemma drainRows_Failed:
  "fst (nxt it) = Failed err \<Longrightarrow>
     drainRows nxt it results = Some (Inl (''error parsing results from query: '' @ err))"
  by (subst drainRows.simps) (cases "nxt it", simp)

lemma drainRows_Row:
  "nxt it = (Row res, it') \<Longrightarrow> drainRows nxt it results = drainRows nxt it' (results @ [res])"
  by (subst drainRows.simps) simp

lemma drainRows_afterRows:
  "afterRows nxt it rows = Some it' \<Longrightarrow> drainRows nxt it results = drainRows nxt it' (results @ rows)"
proof (induction rows arbitrary: it results)
  case Nil
  then show ?case by simp
next
  case (Cons r rows)
  from Cons.prems obtain it1 where step: "nxt it = (Row r, it1)" and rest: "afterRows nxt it1 rows = Some it'"
    by (auto split: prod.splits next_result.splits if_splits)
  have "drainRows nxt it results = drainRows nxt it1 (results @ [r])"
    using step by (rule drainRows_Row)
  also have "\<dots> = drainRows nxt it' ((results @ [r]) @ rows)"
    using rest by (rule Cons.IH)
  finally show ?case by simp
qed

lemma RunRateQuery_submitted:
  assumes "runQuery cl (createRateQuery g n s d st en a) = Inr it"
  shows "RunRateQuery g n s d st en a cl = drainRows (nextRow cl) it []"
  using assms by (simp add: RunRateQuery_def)

lemma RunRateQuery_rejected:
  assumes "runQuery cl (createRateQuery g n s d st en a) = Inl cause"
  shows "RunRateQuery g n s d st en a cl =
     Some (Inl (''error running query \<newline>'' @ createRateQuery g n s d st en a @ ''\<newline>'' @ cause))"
  using assms by (simp add: RunRateQuery_def)

text \<open>
  Claim C6.  Suppose the statement was submitted and the cursor then hands out the rows
  \<open>rows\<close>, each decoded, in this order.  If the cursor reports \<^verbatim>\<open>Done\<close> next,
  \<^verbatim>\<open>RunRateQuery\<close> terminates with exactly \<open>rows\<close>, in this order, and no
  error.  If instead the next row fails to decode, it terminates with the decoding
  error alone: the rows decoded before the failure are not returned.
\<close>

theorem executor_returns_all_rows_or_only_an_error:
  assumes "runQuery cl (createRateQuery getTitleField queryLimit source dest startUnixTimestamp endUnixTimestamp aggregateBy)
             = Inr it"
    and "afterRows (nextRow cl) it rows = Some it'"
  shows "(fst (nextRow cl it') = Done
      \<longrightarrow> RunRateQuery getTitleField queryLimit source dest startUnixTimestamp endUnixTimestamp aggregateBy cl
            = Some (Inr rows))
   \<and> (fst (nextRow cl it') = Failed err
      \<longrightarrow> RunRateQuery getTitleField queryLimit source dest startUnixTimestamp endUnixTimestamp aggregateBy cl
            = Some (Inl (''error parsing results from query: '' @ err)))"
  using drainRows_afterRows [OF assms(2), of "[]"] drainRows_Done [of "nextRow cl" it' rows]
    drainRows_Failed [of "nextRow cl" it' err rows]
  by (simp add: RunRateQuery_submitted [OF assms(1)])

theorem executor_returns_all_rows_or_only_an_error_witness:
  "RunRateQuery sampleTitleField 100 ngnt eurt ''1000'' ''2000'' ''ledger''
      (listClient (\<lambda>query. Inr [Inr (''Ledger 1'', 2 :: rat), Inr (''Ledger 2'', 3), Inr (''Ledger 3'', 5)]))
     = Some (Inr [(''Ledger 1'', 2), (''Ledger 2'', 3), (''Ledger 3'', 5)])
   \<and> RunRateQuery sampleTitleField 100 ngnt eurt ''1000'' ''2000'' ''ledger''
      (listClient (\<lambda>query. Inr [Inr (''Ledger 1'', 2 :: rat), Inl ''bad row'', Inr (''Ledger 3'', 5)]))
     = Some (Inl ''error parsing results from query: bad row'')"
  using executor_returns_all_rows_or_only_an_error
      [of "listClient (\<lambda>query. Inr [Inr (''Ledger 1'', 2 :: rat), Inr (''Ledger 2'', 3), Inr (''Ledger 3'', 5)])"
          sampleTitleField 100 ngnt eurt "''1000''" "''2000''" "''ledger''"
          "[Inr (''Ledger 1'', 2), Inr (''Ledger 2'', 3), Inr (''Ledger 3'', 5)]"
          "[(''Ledger 1'', 2), (''Ledger 2'', 3), (''Ledger 3'', 5)]" "[]"]
    executor_returns_all_rows_or_only_an_error
      [of "listClient (\<lambda>query. Inr [Inr (''Ledger 1'', 2 :: rat), Inl ''bad row'', Inr (''Ledger 3'', 5)])"
          sampleTitleField 100 ngnt eurt "''1000''" "''2000''" "''ledger''"
          "[Inr (''Ledger 1'', 2), Inl ''bad row'', Inr (''Ledger 3'', 5)]"
          "[(''Ledger 1'', 2)]" "[Inl ''bad row'', Inr (''Ledger 3'', 5)]" "''bad row''"]
  by (simp add: listClient_def)

section \<open>What the two error messages carry\<close>

lemma sublist_head_mem: "sublist (x # xs) e \<Longrightarrow> x \<in> set e"
  by (auto simp: sublist_def)

lemma sublist_skips_prefix_without_head:
  assumes "sublist (x # xs) (p @ e)" and "x \<notin> set p"
  shows "sublist (x # xs) e"
proof -
  from assms(1) obtain ps ss where eq: "p @ e = ps @ (x # xs) @ ss"
    by (auto simp: sublist_def)
  then consider us where "p = ps @ us" "us @ e = (x # xs) @ ss" | us where "p @ us = ps" "e = us @ (x # xs) @ ss"
    by (auto simp: append_eq_append_conv2)
  then show ?thesis
  proof cases
    case 1
    show ?thesis
    proof (cases us)
      case Nil
      with 1 show ?thesis by (auto simp: sublist_def intro: exI [of _ "[]"])
    next
      case (Cons u us')
      with 1 have "x \<in> set p" by auto
      with assms(2) show ?thesis by simp
    qed
  next
    case 2
    then show ?thesis by (auto simp: sublist_def)
  qed
qed

lemma createRateQuery_starts_with_W:
  "\<exists>rest. createRateQuery g n s d st en a = CHR ''W'' # rest"
  by (simp add: createRateQuery_def Let_def)

lemma decode_message_without_query:
  assumes "\<not> sublist (createRateQuery g n s d st en a) err"
  shows "\<not> sublist (createRateQuery g n s d st en a) (''error parsing results from query: '' @ err)"
proof
  assume sub: "sublist (createRateQuery g n s d st en a) (''error parsing results from query: '' @ err)"
  obtain rest where q: "createRateQuery g n s d st en a = CHR ''W'' # rest"
    using createRateQuery_starts_with_W by blast
  have "CHR ''W'' \<notin> set ''error parsing results from query: ''"
    by simp
  with sub have "sublist (CHR ''W'' # rest) err"
    unfolding q by (rule sublist_skips_prefix_without_head)
  with assms show False
    by (simp add: q)
qed

text \<open>
  Claim C9.  When submitting the statement fails with \<open>cause\<close>,
  \<^verbatim>\<open>RunRateQuery\<close> returns no rows and the error
  \<^verbatim>\<open>error running query\<close>, a line break, the whole statement, a line break and
  \<open>cause\<close>.  When a row fails to decode with \<open>err\<close>, the error is
  \<^verbatim>\<open>error parsing results from query: \<close> followed by \<open>err\<close>: it contains the
  statement only if \<open>err\<close> itself already does.
\<close>

theorem execute_error_carries_query_decode_error_does_not:
  "(runQuery cl (createRateQuery getTitleField queryLimit source dest startUnixTimestamp endUnixTimestamp aggregateBy)
        = Inl cause
      \<longrightarrow> (\<exists>msg. RunRateQuery getTitleField queryLimit source dest startUnixTimestamp endUnixTimestamp aggregateBy cl
                   = Some (Inl msg)
             \<and> msg = ''error running query \<newline>''
                 @ createRateQuery getTitleField queryLimit source dest startUnixTimestamp endUnixTimestamp aggregateBy
                 @ ''\<newline>'' @ cause
             \<and> sublist (createRateQuery getTitleField queryLimit source dest startUnixTimestamp endUnixTimestamp aggregateBy) msg
             \<and> suffix cause msg))
   \<and> (runQuery cl (createRateQuery getTitleField queryLimit source dest startUnixTimestamp endUnixTimestamp aggregateBy)
        = Inr it
        \<and> afterRows (nextRow cl) it rows = Some it' \<and> fst (nextRow cl it') = Failed err
      \<longrightarrow> (\<exists>msg. RunRateQuery getTitleField queryLimit source dest startUnixTimestamp endUnixTimestamp aggregateBy cl
                   = Some (Inl msg)
             \<and> msg = ''error parsing results from query: '' @ err
             \<and> (\<not> sublist (createRateQuery getTitleField queryLimit source dest startUnixTimestamp endUnixTimestamp aggregateBy) err
                \<longrightarrow> \<not> sublist (createRateQuery getTitleField queryLimit source dest startUnixTimestamp endUnixTimestamp aggregateBy) msg)))"
proof (intro conjI impI)
  let ?q = "createRateQuery getTitleField queryLimit source dest startUnixTimestamp endUnixTimestamp aggregateBy"
  assume "runQuery cl ?q = Inl cause"
  then have run: "RunRateQuery getTitleField queryLimit source dest startUnixTimestamp endUnixTimestamp aggregateBy cl
      = Some (Inl (''error running query \<newline>'' @ ?q @ ''\<newline>'' @ cause))"
    by (rule RunRateQuery_rejected)
  have "sublist ?q (''error running query \<newline>'' @ ?q @ ''\<newline>'' @ cause)"
    by (rule sublist_appendI)
  moreover have "suffix cause (''error running query \<newline>'' @ ?q @ ''\<newline>'' @ cause)"
    by (rule suffixI [of _ "''error running query \<newline>'' @ ?q @ ''\<newline>''"]) simp
  ultimately show "\<exists>msg. RunRateQuery getTitleField queryLimit source dest startUnixTimestamp endUnixTimestamp aggregateBy cl
        = Some (Inl msg)
      \<and> msg = ''error running query \<newline>'' @ ?q @ ''\<newline>'' @ cause \<and> sublist ?q msg \<and> suffix cause msg"
    using run by blast
next
  let ?q = "createRateQuery getTitleField queryLimit source dest startUnixTimestamp endUnixTimestamp aggregateBy"
  assume h: "runQuery cl ?q = Inr it \<and> afterRows (nextRow cl) it rows = Some it' \<and> fst (nextRow cl it') = Failed err"
  then have "RunRateQuery getTitleField queryLimit source dest startUnixTimestamp endUnixTimestamp aggregateBy cl
      = drainRows (nextRow cl) it' rows"
    using drainRows_afterRows [of "nextRow cl" it rows it' "[]"] by (simp add: RunRateQuery_submitted)
  with h have "RunRateQuery getTitleField queryLimit source dest startUnixTimestamp endUnixTimestamp aggregateBy cl
      = Some (Inl (''error parsing results from query: '' @ err))"
    by (simp add: drainRows_Failed)
  then show "\<exists>msg. RunRateQuery getTitleField queryLimit source dest startUnixTimestamp endUnixTimestamp aggregateBy cl
        = Some (Inl msg)
      \<and> msg = ''error parsing results from query: '' @ err
      \<and> (\<not> sublist ?q err \<longrightarrow> \<not> sublist ?q msg)"
    using decode_message_without_query [of getTitleField queryLimit source dest startUnixTimestamp endUnixTimestamp aggregateBy err]
    by blast
qed

theorem execute_error_carries_query_decode_error_does_not_witness:
  "RunRateQuery sampleTitleField 100 ngnt eurt ''1000'' ''2000'' ''ledger''
      (listClient (\<lambda>query. Inl ''quota exceeded'') :: ((string + string \<times> rat) list, string \<times> rat) client)
     = Some (Inl (''error running query \<newline>''
         @ createRateQuery sampleTitleField 100 ngnt eurt ''1000'' ''2000'' ''ledger''
         @ ''\<newline>quota exceeded''))
   \<and> RunRateQuery sampleTitleField 100 ngnt eurt ''1000'' ''2000'' ''ledger''
      (listClient (\<lambda>query. Inr [Inr (''Ledger 1'', 2 :: rat), Inl ''bad row'', Inr (''Ledger 3'', 5)]))
     = Some (Inl ''error parsing results from query: bad row'')
   \<and> \<not> sublist (createRateQuery sampleTitleField 100 ngnt eurt ''1000'' ''2000'' ''ledger'')
         ''error parsing results from query: bad row''"
proof -
  let ?q = "createRateQuery sampleTitleField 100 ngnt eurt ''1000'' ''2000'' ''ledger''"
  obtain rest where q: "?q = CHR ''W'' # rest"
    using createRateQuery_starts_with_W by blast
  have clean: "\<not> sublist ?q ''bad row''"
    unfolding q using sublist_head_mem [of "CHR ''W''" rest "''bad row''"] by auto
  show ?thesis
    using clean
      execute_error_carries_query_decode_error_does_not
        [of "listClient (\<lambda>query. Inl ''quota exceeded'') :: ((string + string \<times> rat) list, string \<times> rat) client"
            sampleTitleField 100 ngnt eurt "''1000''" "''2000''" "''ledger''" "''quota exceeded''"]
      execute_error_carries_query_decode_error_does_not
        [of "listClient (\<lambda>query. Inr [Inr (''Ledger 1'', 2 :: rat), Inl ''bad row'', Inr (''Ledger 3'', 5)])"
            sampleTitleField 100 ngnt eurt "''1000''" "''2000''" "''ledger''" "''quota exceeded''"
            "[Inr (''Ledger 1'', 2), Inl ''bad row'', Inr (''Ledger 3'', 5)]"
            "[(''Ledger 1'', 2)]" "[Inl ''bad row'', Inr (''Ledger 3'', 5)]" "''bad row''"]
    by (simp add: listClient_def)
qed

end
